theory Spec2Isabelle
  imports Complex_Main
begin

section \<open>JSON values as Python sees them\<close>

text \<open>
  \<^verbatim>\<open>json.load\<close> and \<^verbatim>\<open>response.json()\<close> return Python objects: \<^verbatim>\<open>None\<close>, \<^verbatim>\<open>bool\<close>,
  \<^verbatim>\<open>int\<close> (unbounded), \<^verbatim>\<open>float\<close>, \<^verbatim>\<open>str\<close>, \<^verbatim>\<open>list\<close> and \<^verbatim>\<open>dict\<close> with string keys.
  A dict is an association list in insertion order; \<open>map_of\<close> is the lookup. A float is
  the exact value of the double; the program copies floats and never rounds one in the
  parts modelled here, apart from the subtraction in the humidity chart, which is a
  parameter there.
\<close>

datatype json =
    JNull
  | JBool bool
  | JInt int
  | JFloat real
  | JStr string
  | JArr "json list"
  | JObj "(string \<times> json) list"

type_synonym pydict = "(string \<times> json) list"

datatype exn =
    FileNotFoundError
  | PermissionError
  | JSONDecodeError
  | KeyError json
  | IndexError
  | TypeError
  | RequestException

datatype index = Key string | Idx nat

text \<open>\<^verbatim>\<open>v[k]\<close>: a dict looks the key up, a list or a string takes an integer position,
  everything else is not subscriptable.\<close>

fun subscript :: "json \<Rightarrow> index \<Rightarrow> exn + json" where
  "subscript (JObj kvs) (Key k) =
     (case map_of kvs k of None \<Rightarrow> Inl (KeyError (JStr k)) | Some v \<Rightarrow> Inr v)"
| "subscript (JObj kvs) (Idx i) = Inl (KeyError (JInt (int i)))"
| "subscript (JArr xs) (Idx i) = (if i < length xs then Inr (xs ! i) else Inl IndexError)"
| "subscript (JArr xs) (Key k) = Inl TypeError"
| "subscript (JStr s) (Idx i) = (if i < length s then Inr (JStr [s ! i]) else Inl IndexError)"
| "subscript (JStr s) (Key k) = Inl TypeError"
| "subscript JNull i = Inl TypeError"
| "subscript (JBool b) i = Inl TypeError"
| "subscript (JInt n) i = Inl TypeError"
| "subscript (JFloat x) i = Inl TypeError"

text \<open>\<^verbatim>\<open>for x in v\<close>: a list yields its elements, a dict its keys, a string its
  characters; the other values are not iterable.\<close>

fun iterate :: "json \<Rightarrow> exn + json list" where
  "iterate (JArr xs) = Inr xs"
| "iterate (JObj kvs) = Inr (map (\<lambda>kv. JStr (fst kv)) kvs)"
| "iterate (JStr s) = Inr (map (\<lambda>c. JStr [c]) s)"
| "iterate JNull = Inl TypeError"
| "iterate (JBool b) = Inl TypeError"
| "iterate (JInt n) = Inl TypeError"
| "iterate (JFloat x) = Inl TypeError"

text \<open>Truth value of an object, as \<^verbatim>\<open>if not api_key\<close> tests it.\<close>

fun truthy :: "json \<Rightarrow> bool" where
  "truthy JNull = False"
| "truthy (JBool b) = b"
| "truthy (JInt n) = (n \<noteq> 0)"
| "truthy (JFloat x) = (x \<noteq> 0)"
| "truthy (JStr s) = (s \<noteq> [])"
| "truthy (JArr xs) = (xs \<noteq> [])"
| "truthy (JObj kvs) = (kvs \<noteq> [])"

subsection \<open>Exceptions as values\<close>

definition and_then :: "exn + 'a \<Rightarrow> ('a \<Rightarrow> exn + 'b) \<Rightarrow> exn + 'b" where
  "and_then r f = (case r of Inl e \<Rightarrow> Inl e | Inr v \<Rightarrow> f v)"

text \<open>A chain of subscripts \<^verbatim>\<open>v[k1][k2]...\<close>, left to right.\<close>

fun path :: "json \<Rightarrow> index list \<Rightarrow> exn + json" where
  "path v [] = Inr v"
| "path v (k # ks) = and_then (subscript v k) (\<lambda>w. path w ks)"

text \<open>A dict display \<^verbatim>\<open>{k1: e1, k2: e2, ...}\<close>: the entries are evaluated in order and
  the first exception leaves the display.\<close>

fun dict_of :: "(string \<times> (exn + json)) list \<Rightarrow> exn + pydict" where
  "dict_of [] = Inr []"
| "dict_of ((k, r) # rest) =
     and_then r (\<lambda>v. and_then (dict_of rest) (\<lambda>kvs. Inr ((k, v) # kvs)))"

text \<open>The body of a comprehension run over a list: the first exception ends it.\<close>

fun traverse :: "('a \<Rightarrow> exn + 'b) \<Rightarrow> 'a list \<Rightarrow> exn + 'b list" where
  "traverse f [] = Inr []"
| "traverse f (x # xs) =
     and_then (f x) (\<lambda>y. and_then (traverse f xs) (\<lambda>ys. Inr (y # ys)))"

subsection \<open>f-strings\<close>

text \<open>
  A replacement field \<^verbatim>\<open>{v}\<close> inserts \<^verbatim>\<open>str(v)\<close>: the string itself for a \<^verbatim>\<open>str\<close>.
  Python's text for numbers and containers is the parameter \<open>fmt\<close>.
\<close>

fun py_format :: "(json \<Rightarrow> string) \<Rightarrow> json \<Rightarrow> string" where
  "py_format fmt (JStr s) = s"
| "py_format fmt v = fmt v"

text \<open>\<^verbatim>\<open>f"http:{v}"\<close>, lines 38, 51 and 66.\<close>

definition http_prefix :: "(json \<Rightarrow> string) \<Rightarrow> json \<Rightarrow> json" where
  "http_prefix fmt v = JStr (''http:'' @ py_format fmt v)"

section \<open>The world outside\<close>

text \<open>
  The configuration file is missing, cannot be opened for another reason, or is opened
  and holds text that is JSON (\<open>Some\<close>) or is not (\<open>None\<close>).
\<close>

datatype config_file = Missing | Unreadable | File "json option"

text \<open>A response has a status code, which the program never reads, and a body that
  parses as JSON or does not.\<close>

record response =
  status_code :: nat
  body :: "json option"

text \<open>The answer to the \<open>n\<close>-th call of \<^verbatim>\<open>requests.get\<close> (from 0) with a URL: an
  exception of the HTTP client, or a response.\<close>

type_synonym net = "nat \<Rightarrow> string \<Rightarrow> exn + response"

datatype msg = ConfigNotFound | LoadFailed exn

datatype event = StTitle | StError msg | StStop | HttpGet string

fun open_config :: "config_file \<Rightarrow> exn + json option" where
  "open_config Missing = Inl FileNotFoundError"
| "open_config Unreadable = Inl PermissionError"
| "open_config (File c) = Inr c"

fun json_load :: "json option \<Rightarrow> exn + json" where
  "json_load None = Inl JSONDecodeError"
| "json_load (Some v) = Inr v"

section \<open>load_api_key\<close>

text \<open>Lines 13-19. Only \<^verbatim>\<open>FileNotFoundError\<close> has a handler: it shows the message and
  returns \<^verbatim>\<open>None\<close>. Every other exception leaves the function.\<close>

definition load_api_key :: "config_file \<Rightarrow> (exn + json) \<times> event list" where
  "load_api_key cfg =
     (case and_then (open_config cfg) (\<lambda>f.
             and_then (json_load f) (\<lambda>config. subscript config (Key ''api_key''))) of
        Inl FileNotFoundError \<Rightarrow> (Inr JNull, [StError ConfigNotFound])
      | Inl e \<Rightarrow> (Inl e, [])
      | Inr v \<Rightarrow> (Inr v, []))"

section \<open>load_weather_data\<close>

definition forecast_url :: "(json \<Rightarrow> string) \<Rightarrow> json \<Rightarrow> string \<Rightarrow> string \<Rightarrow> string" where
  "forecast_url fmt api_key city days =
     ''http://api.weatherapi.com/v1/forecast.json?key='' @ py_format fmt api_key
       @ ''&q='' @ city @ ''&days='' @ days @ ''&aqi=no&alerts=no''"

text \<open>\<^verbatim>\<open>requests.get(url)\<close> followed by \<^verbatim>\<open>.json()\<close>.\<close>

definition get_json :: "net \<Rightarrow> nat \<Rightarrow> string \<Rightarrow> exn + json" where
  "get_json nt n url = and_then (nt n url) (\<lambda>r. json_load (body r))"

subsection \<open>Data frames\<close>

text \<open>
  \<^verbatim>\<open>pd.DataFrame(records)\<close>: the frame pandas builds from a list of dicts. It has one
  row per dict, in the order of the list. What pandas stores in a cell is not modelled: it
  re-types a numeric column (an \<^verbatim>\<open>int\<close> next to a \<^verbatim>\<open>float\<close> or a \<^verbatim>\<open>None\<close> becomes a
  \<^verbatim>\<open>float64\<close>, \<^verbatim>\<open>None\<close> becomes \<^verbatim>\<open>NaN\<close>), so the dicts under \<open>DataFrame\<close> are what
  the program hands to pandas, not what a cell of the frame reads back. \<^verbatim>\<open>pd.DataFrame()\<close>
  is the frame of no records.
\<close>

datatype frame = DataFrame "pydict list"

fun n_rows :: "frame \<Rightarrow> nat" where
  "n_rows (DataFrame records) = length records"

subsection \<open>The three outputs\<close>

text \<open>Lines 32-41.\<close>

definition current_data :: "(json \<Rightarrow> string) \<Rightarrow> json \<Rightarrow> exn + pydict" where
  "current_data fmt data_48hr = dict_of
     [(''temperature'', path data_48hr [Key ''current'', Key ''temp_c'']),
      (''feels_like'', path data_48hr [Key ''current'', Key ''feelslike_c'']),
      (''humidity'', path data_48hr [Key ''current'', Key ''humidity'']),
      (''condition'', path data_48hr [Key ''current'', Key ''condition'', Key ''text'']),
      (''wind_speed'', path data_48hr [Key ''current'', Key ''wind_kph'']),
      (''icon'', and_then (path data_48hr [Key ''current'', Key ''condition'', Key ''icon''])
                   (\<lambda>v. Inr (http_prefix fmt v))),
      (''sunrise'', path data_48hr
          [Key ''forecast'', Key ''forecastday'', Idx 0, Key ''astro'', Key ''sunrise'']),
      (''sunset'', path data_48hr
          [Key ''forecast'', Key ''forecastday'', Idx 0, Key ''astro'', Key ''sunset''])]"

text \<open>Lines 44-52: one dict per hour, the days in the outer loop, and the frame built from
  the list.\<close>

definition hour_row :: "(json \<Rightarrow> string) \<Rightarrow> json \<Rightarrow> exn + pydict" where
  "hour_row fmt hour = dict_of
     [(''time'', path hour [Key ''time'']),
      (''temperature'', path hour [Key ''temp_c'']),
      (''feels_like'', path hour [Key ''feelslike_c'']),
      (''humidity'', path hour [Key ''humidity'']),
      (''condition'', path hour [Key ''condition'', Key ''text'']),
      (''wind_speed'', path hour [Key ''wind_kph'']),
      (''icon'', and_then (path hour [Key ''condition'', Key ''icon''])
                   (\<lambda>v. Inr (http_prefix fmt v)))]"

definition forecast_48hr :: "(json \<Rightarrow> string) \<Rightarrow> json \<Rightarrow> exn + frame" where
  "forecast_48hr fmt data_48hr =
     and_then (path data_48hr [Key ''forecast'', Key ''forecastday'']) (\<lambda>fd.
     and_then (iterate fd) (\<lambda>days.
     and_then (traverse (\<lambda>day.
                 and_then (path day [Key ''hour'']) (\<lambda>hs.
                 and_then (iterate hs) (\<lambda>hours. traverse (hour_row fmt) hours))) days)
       (\<lambda>rows. Inr (DataFrame (concat rows)))))"

text \<open>Lines 59-67.\<close>

definition day_row :: "(json \<Rightarrow> string) \<Rightarrow> json \<Rightarrow> exn + pydict" where
  "day_row fmt day = dict_of
     [(''date'', path day [Key ''date'']),
      (''avg_temperature'', path day [Key ''day'', Key ''avgtemp_c'']),
      (''condition'', path day [Key ''day'', Key ''condition'', Key ''text'']),
      (''wind_speed'', path day [Key ''day'', Key ''maxwind_kph'']),
      (''sunrise'', path day [Key ''astro'', Key ''sunrise'']),
      (''sunset'', path day [Key ''astro'', Key ''sunset'']),
      (''icon'', and_then (path day [Key ''day'', Key ''condition'', Key ''icon''])
                   (\<lambda>v. Inr (http_prefix fmt v)))]"

definition forecast_10day :: "(json \<Rightarrow> string) \<Rightarrow> json \<Rightarrow> exn + frame" where
  "forecast_10day fmt data_10day =
     and_then (path data_10day [Key ''forecast'', Key ''forecastday'']) (\<lambda>fd.
     and_then (iterate fd) (\<lambda>days.
     and_then (traverse (day_row fmt) days) (\<lambda>rows. Inr (DataFrame rows))))"

text \<open>Lines 27-52, up to the second request: what the \<^verbatim>\<open>try\<close> block has computed
  when it reaches line 55, or the exception that left it before.\<close>

definition first_part ::
  "(json \<Rightarrow> string) \<Rightarrow> net \<Rightarrow> string \<Rightarrow> json \<Rightarrow> exn + (pydict \<times> frame)" where
  "first_part fmt nt city api_key =
     and_then (get_json nt 0 (forecast_url fmt api_key city ''2'')) (\<lambda>data_48hr.
     and_then (current_data fmt data_48hr) (\<lambda>cur.
     and_then (forecast_48hr fmt data_48hr) (\<lambda>hourly. Inr (cur, hourly))))"

text \<open>Lines 55-67.\<close>

definition second_part ::
  "(json \<Rightarrow> string) \<Rightarrow> net \<Rightarrow> string \<Rightarrow> json \<Rightarrow> exn + frame" where
  "second_part fmt nt city api_key =
     and_then (get_json nt 1 (forecast_url fmt api_key city ''10'')) (forecast_10day fmt)"

text \<open>
  Lines 25-73. The second component is what the call did, in order: the requests it made
  and the error it showed.
\<close>

definition load_weather_data ::
  "(json \<Rightarrow> string) \<Rightarrow> net \<Rightarrow> string \<Rightarrow> json
     \<Rightarrow> (pydict option \<times> frame \<times> frame) \<times> event list" where
  "load_weather_data fmt nt city api_key =
     (let url_48hr = forecast_url fmt api_key city ''2'';
          url_10day = forecast_url fmt api_key city ''10''
      in case first_part fmt nt city api_key of
           Inl e \<Rightarrow> ((None, DataFrame [], DataFrame []),
                     [HttpGet url_48hr, StError (LoadFailed e)])
         | Inr (cur, hourly) \<Rightarrow>
             (case second_part fmt nt city api_key of
                Inl e \<Rightarrow> ((None, DataFrame [], DataFrame []),
                          [HttpGet url_48hr, HttpGet url_10day, StError (LoadFailed e)])
              | Inr daily \<Rightarrow> ((Some cur, hourly, daily),
                              [HttpGet url_48hr, HttpGet url_10day])))"

section \<open>main\<close>

text \<open>
  Lines 76-87: the run ends with an exception nobody caught, at \<^verbatim>\<open>st.stop()\<close>, or
  with the three values handed to the rendering code of lines 89-154. Of the rendering
  only the input of the humidity chart is modelled, below.
\<close>

datatype outcome =
    Crashed exn
  | Stopped
  | Loaded "pydict option \<times> frame \<times> frame"

definition main ::
  "(json \<Rightarrow> string) \<Rightarrow> config_file \<Rightarrow> net \<Rightarrow> string \<Rightarrow> outcome \<times> event list" where
  "main fmt cfg nt city =
     (case load_api_key cfg of
        (Inl e, evs) \<Rightarrow> (Crashed e, StTitle # evs)
      | (Inr api_key, evs) \<Rightarrow>
          if \<not> truthy api_key then (Stopped, StTitle # evs @ [StStop])
          else (case load_weather_data fmt nt city api_key of
                  (r, evs') \<Rightarrow> (Loaded r, StTitle # evs @ evs')))"

text \<open>
  Line 124: \<^verbatim>\<open>values=[current_data['humidity'], 100 - current_data['humidity']]\<close>.
  A \<^verbatim>\<open>bool\<close> counts as 0 or 1; \<open>fsub\<close> is the subtraction of a double from 100.
\<close>

fun pie_values :: "(real \<Rightarrow> real) \<Rightarrow> json \<Rightarrow> exn + json list" where
  "pie_values fsub (JInt h) = Inr [JInt h, JInt (100 - h)]"
| "pie_values fsub (JBool b) = Inr [JBool b, JInt (100 - (if b then 1 else 0))]"
| "pie_values fsub (JFloat x) = Inr [JFloat x, JFloat (fsub x)]"
| "pie_values fsub JNull = Inl TypeError"
| "pie_values fsub (JStr s) = Inl TypeError"
| "pie_values fsub (JArr xs) = Inl TypeError"
| "pie_values fsub (JObj kvs) = Inl TypeError"

definition humidity_pie :: "(real \<Rightarrow> real) \<Rightarrow> pydict \<Rightarrow> exn + json list" where
  "humidity_pie fsub cur =
     and_then (subscript (JObj cur) (Key ''humidity'')) (pie_values fsub)"

section \<open>Reading a payload\<close>

text \<open>
  The vocabulary of the properties: the member of an object, the value under a chain of
  member names, the elements of an array. They never raise: a value that is not there
  is \<open>None\<close>, and what is not an array has no elements.
\<close>

fun member :: "json \<Rightarrow> string \<Rightarrow> json option" where
  "member (JObj kvs) k = map_of kvs k"
| "member v k = None"

fun jget :: "json \<Rightarrow> string list \<Rightarrow> json option" where
  "jget v [] = Some v"
| "jget v (k # ks) = (case member v k of None \<Rightarrow> None | Some w \<Rightarrow> jget w ks)"

fun is_array :: "json option \<Rightarrow> bool" where
  "is_array (Some (JArr xs)) = True"
| "is_array v = False"

fun elems :: "json option \<Rightarrow> json list" where
  "elems (Some (JArr xs)) = xs"
| "elems v = []"

definition has :: "json \<Rightarrow> string list \<Rightarrow> bool" where
  "has v p = (jget v p \<noteq> None)"

definition days_of :: "json \<Rightarrow> json list" where
  "days_of d = elems (jget d [''forecast'', ''forecastday''])"

definition hours_of :: "json \<Rightarrow> json list" where
  "hours_of day = elems (jget day [''hour''])"

text \<open>The output dict \<open>row\<close> holds under \<open>k\<close> the very value the payload has at \<open>p\<close>.\<close>

definition same_field :: "pydict \<Rightarrow> string \<Rightarrow> json \<Rightarrow> string list \<Rightarrow> bool" where
  "same_field row k v p =
     (case jget v p of None \<Rightarrow> False | Some x \<Rightarrow> map_of row k = Some x)"

text \<open>The output dict holds under \<open>icon\<close> the prefixed icon path of the payload.\<close>

definition icon_field :: "(json \<Rightarrow> string) \<Rightarrow> pydict \<Rightarrow> json \<Rightarrow> string list \<Rightarrow> bool" where
  "icon_field fmt row v p =
     (case jget v p of None \<Rightarrow> False
      | Some x \<Rightarrow> map_of row ''icon'' = Some (http_prefix fmt x))"

subsection \<open>The documented shape\<close>

text \<open>
  \<^verbatim>\<open>{ current: {...}, forecast: { forecastday: [ { date, astro: {sunrise, sunset},
  day: {...}, hour: [...] }, ... ] } }\<close>, with the members the program reads. The 2-day
  payload has at least its first day, whose \<^verbatim>\<open>astro\<close> gives sunrise and sunset.
\<close>

definition shape_current :: "json \<Rightarrow> bool" where
  "shape_current d =
     (has d [''current'', ''temp_c''] \<and> has d [''current'', ''feelslike_c'']
      \<and> has d [''current'', ''humidity''] \<and> has d [''current'', ''condition'', ''text'']
      \<and> has d [''current'', ''wind_kph''] \<and> has d [''current'', ''condition'', ''icon''])"

definition shape_hour :: "json \<Rightarrow> bool" where
  "shape_hour h =
     (has h [''time''] \<and> has h [''temp_c''] \<and> has h [''feelslike_c'']
      \<and> has h [''humidity''] \<and> has h [''condition'', ''text'']
      \<and> has h [''wind_kph''] \<and> has h [''condition'', ''icon''])"

definition shape_hours :: "json \<Rightarrow> bool" where
  "shape_hours day = (is_array (jget day [''hour'']) \<and> list_all shape_hour (hours_of day))"

definition shape_48hr :: "json \<Rightarrow> bool" where
  "shape_48hr d =
     (shape_current d \<and> is_array (jget d [''forecast'', ''forecastday''])
      \<and> (case days_of d of [] \<Rightarrow> False
          | day0 # rest \<Rightarrow> has day0 [''astro'', ''sunrise''] \<and> has day0 [''astro'', ''sunset''])
      \<and> list_all shape_hours (days_of d))"

definition shape_day :: "json \<Rightarrow> bool" where
  "shape_day day =
     (has day [''date''] \<and> has day [''day'', ''avgtemp_c'']
      \<and> has day [''day'', ''condition'', ''text''] \<and> has day [''day'', ''maxwind_kph'']
      \<and> has day [''astro'', ''sunrise''] \<and> has day [''astro'', ''sunset'']
      \<and> has day [''day'', ''condition'', ''icon''])"

definition shape_10day :: "json \<Rightarrow> bool" where
  "shape_10day d =
     (is_array (jget d [''forecast'', ''forecastday'']) \<and> list_all shape_day (days_of d))"

text \<open>The first forecast day of a payload; \<^verbatim>\<open>null\<close>, which has no members, when there
  is none.\<close>

definition first_day :: "json \<Rightarrow> json" where
  "first_day d = (case days_of d of [] \<Rightarrow> JNull | day0 # rest \<Rightarrow> day0)"

text \<open>
  A member the first part reads is missing from the 2-day payload: one of the current
  conditions, the sunrise or sunset of the first forecast day (also when there is no first
  day), the \<^verbatim>\<open>hour\<close> member of a day, or a member of one of its hours.
\<close>

definition lacks_field :: "json \<Rightarrow> bool" where
  "lacks_field d =
     (\<not> shape_current d
      \<or> \<not> has (first_day d) [''astro'', ''sunrise'']
      \<or> \<not> has (first_day d) [''astro'', ''sunset'']
      \<or> list_ex (\<lambda>day. \<not> has day [''hour'']
                          \<or> list_ex (\<lambda>h. \<not> shape_hour h) (hours_of day)) (days_of d))"

subsection \<open>What an output dict holds\<close>

text \<open>The current conditions built from the payload \<open>d\<close>: the eight keys in order, each
  value the one the payload has.\<close>

definition current_entry :: "(json \<Rightarrow> string) \<Rightarrow> json \<Rightarrow> pydict \<Rightarrow> bool" where
  "current_entry fmt d cur =
     (map fst cur = [''temperature'', ''feels_like'', ''humidity'', ''condition'', ''wind_speed'',
                     ''icon'', ''sunrise'', ''sunset'']
      \<and> same_field cur ''temperature'' d [''current'', ''temp_c'']
      \<and> same_field cur ''feels_like'' d [''current'', ''feelslike_c'']
      \<and> same_field cur ''humidity'' d [''current'', ''humidity'']
      \<and> same_field cur ''condition'' d [''current'', ''condition'', ''text'']
      \<and> same_field cur ''wind_speed'' d [''current'', ''wind_kph'']
      \<and> icon_field fmt cur d [''current'', ''condition'', ''icon'']
      \<and> same_field cur ''sunrise'' (first_day d) [''astro'', ''sunrise'']
      \<and> same_field cur ''sunset'' (first_day d) [''astro'', ''sunset''])"

text \<open>The row built from one element of an \<^verbatim>\<open>hour\<close> array.\<close>

definition hourly_entry :: "(json \<Rightarrow> string) \<Rightarrow> json \<Rightarrow> pydict \<Rightarrow> bool" where
  "hourly_entry fmt h row =
     (map fst row = [''time'', ''temperature'', ''feels_like'', ''humidity'', ''condition'',
                     ''wind_speed'', ''icon'']
      \<and> same_field row ''time'' h [''time'']
      \<and> same_field row ''temperature'' h [''temp_c'']
      \<and> same_field row ''feels_like'' h [''feelslike_c'']
      \<and> same_field row ''humidity'' h [''humidity'']
      \<and> same_field row ''condition'' h [''condition'', ''text'']
      \<and> same_field row ''wind_speed'' h [''wind_kph'']
      \<and> icon_field fmt row h [''condition'', ''icon''])"

text \<open>The row built from one forecast day.\<close>

definition daily_entry :: "(json \<Rightarrow> string) \<Rightarrow> json \<Rightarrow> pydict \<Rightarrow> bool" where
  "daily_entry fmt day row =
     (map fst row = [''date'', ''avg_temperature'', ''condition'', ''wind_speed'', ''sunrise'',
                     ''sunset'', ''icon'']
      \<and> same_field row ''date'' day [''date'']
      \<and> same_field row ''avg_temperature'' day [''day'', ''avgtemp_c'']
      \<and> same_field row ''condition'' day [''day'', ''condition'', ''text'']
      \<and> same_field row ''wind_speed'' day [''day'', ''maxwind_kph'']
      \<and> same_field row ''sunrise'' day [''astro'', ''sunrise'']
      \<and> same_field row ''sunset'' day [''astro'', ''sunset'']
      \<and> icon_field fmt row day [''day'', ''condition'', ''icon''])"

text \<open>The URLs a run requested, in order.\<close>

fun requests_made :: "event list \<Rightarrow> string list" where
  "requests_made [] = []"
| "requests_made (HttpGet u # evs) = u # requests_made evs"
| "requests_made (ev # evs) = requests_made evs"

subsection \<open>Sample payloads\<close>

definition plain_fmt :: "json \<Rightarrow> string" where
  "plain_fmt v = ''?''"

definition sample_condition :: json where
  "sample_condition = JObj [(''text'', JStr ''Sunny''), (''icon'', JStr ''//cdn.example/icon.png'')]"

definition sample_hour :: "string \<Rightarrow> json" where
  "sample_hour t = JObj
     [(''time'', JStr t), (''temp_c'', JFloat 11), (''feelslike_c'', JFloat 9),
      (''humidity'', JInt 80), (''condition'', sample_condition), (''wind_kph'', JInt 12)]"

definition sample_day :: "string \<Rightarrow> string list \<Rightarrow> json" where
  "sample_day dt ts = JObj
     [(''date'', JStr dt),
      (''astro'', JObj [(''sunrise'', JStr (''07:'' @ dt)), (''sunset'', JStr ''18:05'')]),
      (''day'', JObj [(''avgtemp_c'', JFloat 10), (''maxwind_kph'', JInt 20),
                      (''condition'', sample_condition)]),
      (''hour'', JArr (map sample_hour ts))]"

definition sample_current :: json where
  "sample_current = JObj
     [(''temp_c'', JFloat 11), (''feelslike_c'', JFloat 9), (''humidity'', JInt 80),
      (''condition'', sample_condition), (''wind_kph'', JInt 12)]"

definition sample_payload :: "json list \<Rightarrow> json" where
  "sample_payload days = JObj
     [(''current'', sample_current), (''forecast'', JObj [(''forecastday'', JArr days)])]"

definition sample_48hr :: json where
  "sample_48hr = sample_payload [sample_day ''d1'' [''a'', ''b''], sample_day ''d2'' [''c'']]"

definition sample_10day :: json where
  "sample_10day = sample_payload (map (\<lambda>dt. sample_day dt [])
     [''d0'', ''d1'', ''d2'', ''d3'', ''d4'', ''d5'', ''d6'', ''d7'', ''d8'', ''d9''])"

definition ok :: "json \<Rightarrow> exn + response" where
  "ok d = Inr \<lparr>status_code = 200, body = Some d\<rparr>"

definition net_ok :: net where
  "net_ok n url = (if n = 0 then ok sample_48hr else ok sample_10day)"

definition net_bad_json :: net where
  "net_bad_json n url = Inr \<lparr>status_code = 200, body = None\<rparr>"

definition net_second_down :: net where
  "net_second_down n url = (if n = 0 then ok sample_48hr else Inl RequestException)"

definition net_no_days :: net where
  "net_no_days n url = ok (sample_payload [])"

text \<open>An answer with status 500 to both requests, the bodies well formed.\<close>

definition net_500 :: net where
  "net_500 n url =
     Inr \<lparr>status_code = 500, body = Some (if n = 0 then sample_48hr else sample_10day)\<rparr>"

text \<open>An answer with status 401 whose body is an error object, without \<^verbatim>\<open>current\<close>.\<close>

definition net_error_body :: net where
  "net_error_body n url =
     Inr \<lparr>status_code = 401,
          body = Some (JObj [(''error'', JObj [(''code'', JInt 2006)])])\<rparr>"

section \<open>Properties\<close>

subsection \<open>Exceptions, paths and comprehensions\<close>

lemma and_then_Inr: "and_then (Inr v) f = f v"
  by (simp add: and_then_def)

lemma and_then_Inl: "and_then (Inl e) f = Inl e"
  by (simp add: and_then_def)

lemma and_then_eq_Inr: "and_then r f = Inr y \<longleftrightarrow> (\<exists>v. r = Inr v \<and> f v = Inr y)"
  by (cases r) (simp_all add: and_then_def)

lemma and_then_eq_Inl:
  "and_then r f = Inl e \<longleftrightarrow> r = Inl e \<or> (\<exists>v. r = Inr v \<and> f v = Inl e)"
  by (cases r) (simp_all add: and_then_def)

lemma member_subscript: "member v k = Some w \<Longrightarrow> subscript v (Key k) = Inr w"
  by (cases v) simp_all

lemma jget_path: "jget v ks = Some w \<Longrightarrow> path v (map Key ks) = Inr w"
proof (induction ks arbitrary: v)
  case Nil
  then show ?case by simp
next
  case (Cons k ks)
  then obtain u where u: "member v k = Some u" "jget u ks = Some w"
    by (auto split: option.splits)
  then show ?case
    using Cons.IH [OF u(2)] by (simp add: member_subscript and_then_Inr)
qed

lemma traverse_Inr:
  "traverse f xs = Inr ys \<longleftrightarrow> list_all2 (\<lambda>x y. f x = Inr y) xs ys"
proof (induction xs arbitrary: ys)
  case Nil
  then show ?case by auto
next
  case (Cons x xs)
  then show ?case
    by (auto simp: and_then_eq_Inr list_all2_Cons1)
qed

lemma dict_of_Cons:
  "dict_of ((k, r) # rest) = Inr kvs \<longleftrightarrow>
     (\<exists>v kvs'. r = Inr v \<and> dict_of rest = Inr kvs' \<and> kvs = (k, v) # kvs')"
  by (auto simp: and_then_eq_Inr)

subsection \<open>The credential\<close>

text \<open>
  C4. With the credential file absent, \<open>load_api_key\<close> shows the configuration error
  and returns \<^verbatim>\<open>None\<close>; \<open>main\<close> then stops at \<^verbatim>\<open>st.stop()\<close>, and the run has made no
  HTTP request: \<open>load_weather_data\<close> is not reached.
\<close>

theorem credential_file_absent:
  "load_api_key Missing = (Inr JNull, [StError ConfigNotFound])
   \<and> main fmt Missing nt city = (Stopped, [StTitle, StError ConfigNotFound, StStop])
   \<and> requests_made (snd (main fmt Missing nt city)) = []"
  by (simp add: load_api_key_def main_def and_then_def)

lemma body_not_missing:
  "cfg \<noteq> Missing \<Longrightarrow>
   and_then (open_config cfg) (\<lambda>f.
     and_then (json_load f) (\<lambda>config. subscript config (Key ''api_key''))) \<noteq> Inl FileNotFoundError"
proof (cases cfg)
  case Missing
  assume "cfg \<noteq> Missing"
  with Missing show ?thesis by simp
next
  case Unreadable
  then show ?thesis by (simp add: and_then_def)
next
  case (File c)
  show ?thesis
  proof (cases c)
    case None
    with File show ?thesis by (simp add: and_then_def)
  next
    case (Some v)
    with File show ?thesis
      by (cases v) (simp_all add: and_then_def split: option.splits)
  qed
qed

text \<open>
  C9. \<open>load_api_key\<close> shows the configuration error exactly when the file is missing.
  For every other file the exception of the body, if any, leaves the function as it is,
  with nothing shown: a file that cannot be opened, text that is not JSON, an object
  without \<^verbatim>\<open>api_key\<close>, a value that is not an object.
\<close>

theorem only_missing_file_is_handled:
  "(StError ConfigNotFound \<in> set (snd (load_api_key cfg)) \<longleftrightarrow> cfg = Missing)
   \<and> (cfg \<noteq> Missing \<longrightarrow>
        load_api_key cfg =
          (and_then (open_config cfg) (\<lambda>f.
             and_then (json_load f) (\<lambda>config. subscript config (Key ''api_key''))), []))
   \<and> load_api_key Unreadable = (Inl PermissionError, [])
   \<and> load_api_key (File None) = (Inl JSONDecodeError, [])
   \<and> (map_of kvs ''api_key'' = None \<longrightarrow>
        load_api_key (File (Some (JObj kvs))) = (Inl (KeyError (JStr ''api_key'')), []))
   \<and> load_api_key (File (Some (JArr xs))) = (Inl TypeError, [])"
proof -
  have a: "load_api_key Missing = (Inr JNull, [StError ConfigNotFound])"
    by (simp add: load_api_key_def and_then_def)
  have b: "load_api_key cfg =
          (and_then (open_config cfg) (\<lambda>f.
             and_then (json_load f) (\<lambda>config. subscript config (Key ''api_key''))), [])"
    if "cfg \<noteq> Missing"
    using body_not_missing [OF that]
    by (auto simp: load_api_key_def split: sum.splits exn.splits)
  have c: "StError ConfigNotFound \<in> set (snd (load_api_key cfg)) \<longleftrightarrow> cfg = Missing"
    using a b by (cases "cfg = Missing") auto
  have d: "load_api_key Unreadable = (Inl PermissionError, [])"
    "load_api_key (File None) = (Inl JSONDecodeError, [])"
    "load_api_key (File (Some (JArr xs))) = (Inl TypeError, [])"
    by (simp_all add: load_api_key_def and_then_def)
  have e: "load_api_key (File (Some (JObj kvs))) = (Inl (KeyError (JStr ''api_key'')), [])"
    if "map_of kvs ''api_key'' = None"
    using that by (simp add: load_api_key_def and_then_def)
  show ?thesis using b c d e by blast
qed

theorem only_missing_file_is_handled_witness:
  "load_api_key (File (Some (JObj [(''key'', JStr ''k'')])))
     = (Inl (KeyError (JStr ''api_key'')), [])
   \<and> StError ConfigNotFound \<notin> set (snd (load_api_key (File (Some (JObj [(''key'', JStr ''k'')])))))"
  using only_missing_file_is_handled
    [of "File (Some (JObj [(''key'', JStr ''k'')]))" "[(''key'', JStr ''k'')]" "[]"]
  by (simp add: and_then_def)

subsection \<open>Failures of the two requests\<close>

lemma first_part_Inl:
  "first_part fmt nt city api_key = Inl e \<Longrightarrow>
   load_weather_data fmt nt city api_key =
     ((None, DataFrame [], DataFrame []), [HttpGet (forecast_url fmt api_key city ''2''), StError (LoadFailed e)])"
  by (simp add: load_weather_data_def)

text \<open>
  C2. When the first part has produced current conditions and hourly rows and the second
  request raises, or its body is not JSON, or building the daily rows raises,
  \<open>load_weather_data\<close> returns \<^verbatim>\<open>None\<close> and two empty frames: what the first part
  computed is dropped.
\<close>

theorem second_request_fails:
  assumes "first_part fmt nt city api_key = Inr (cur, hourly)"
    and "nt 1 (forecast_url fmt api_key city ''10'') = Inl e
     \<or> (\<exists>r. nt 1 (forecast_url fmt api_key city ''10'') = Inr r
            \<and> (body r = None \<and> e = JSONDecodeError
               \<or> (\<exists>d. body r = Some d \<and> forecast_10day fmt d = Inl e)))"
  shows "load_weather_data fmt nt city api_key =
           ((None, DataFrame [], DataFrame []),
            [HttpGet (forecast_url fmt api_key city ''2''),
             HttpGet (forecast_url fmt api_key city ''10''), StError (LoadFailed e)])"
proof -
  from assms(2) have "second_part fmt nt city api_key = Inl e"
    by (auto simp: second_part_def get_json_def and_then_def)
  with assms(1) show ?thesis by (simp add: load_weather_data_def)
qed


theorem second_request_fails_witness:
  "load_weather_data plain_fmt net_second_down ''London'' (JStr ''k'') =
     ((None, DataFrame [], DataFrame []),
      [HttpGet (forecast_url plain_fmt (JStr ''k'') ''London'' ''2''),
       HttpGet (forecast_url plain_fmt (JStr ''k'') ''London'' ''10''),
       StError (LoadFailed RequestException)])"
proof -
  have "\<exists>cur hourly. first_part plain_fmt net_second_down ''London'' (JStr ''k'')
          = Inr (cur, hourly)"
    by (simp add: first_part_def get_json_def net_second_down_def ok_def sample_48hr_def
        sample_payload_def sample_day_def sample_hour_def sample_current_def
        sample_condition_def current_data_def forecast_48hr_def hour_row_def
        and_then_Inr)
  then obtain cur hourly where
    "first_part plain_fmt net_second_down ''London'' (JStr ''k'') = Inr (cur, hourly)"
    by blast
  then show ?thesis
    using second_request_fails [of plain_fmt net_second_down "''London''" "JStr ''k''" cur hourly
        RequestException]
    by (simp add: net_second_down_def)
qed

lemma hasE: "has v p \<Longrightarrow> (\<And>x. jget v p = Some x \<Longrightarrow> path v (map Key p) = Inr x \<Longrightarrow> P) \<Longrightarrow> P"
  by (auto simp: has_def jget_path)

lemma path_append: "path v (ks @ ks') = and_then (path v ks) (\<lambda>w. path w ks')"
  by (induction ks arbitrary: v) (simp_all add: and_then_def split: sum.splits)

lemma current_data_first_six:
  assumes "shape_current d"
  obtains t f h c w i where
    "jget d [''current'', ''temp_c''] = Some t"
    "jget d [''current'', ''feelslike_c''] = Some f"
    "jget d [''current'', ''humidity''] = Some h"
    "jget d [''current'', ''condition'', ''text''] = Some c"
    "jget d [''current'', ''wind_kph''] = Some w"
    "jget d [''current'', ''condition'', ''icon''] = Some i"
    "current_data fmt d =
       and_then (path d [Key ''forecast'', Key ''forecastday'', Idx 0, Key ''astro'', Key ''sunrise''])
         (\<lambda>sr. and_then (path d [Key ''forecast'', Key ''forecastday'', Idx 0, Key ''astro'', Key ''sunset''])
           (\<lambda>ss. Inr [(''temperature'', t), (''feels_like'', f), (''humidity'', h),
                       (''condition'', c), (''wind_speed'', w), (''icon'', http_prefix fmt i),
                       (''sunrise'', sr), (''sunset'', ss)]))"
proof -
  from assms have h: "has d [''current'', ''temp_c'']" "has d [''current'', ''feelslike_c'']"
    "has d [''current'', ''humidity'']" "has d [''current'', ''condition'', ''text'']"
    "has d [''current'', ''wind_kph'']" "has d [''current'', ''condition'', ''icon'']"
    by (simp_all add: shape_current_def)
  from h(1) obtain t where t: "jget d [''current'', ''temp_c''] = Some t"
    "path d [Key ''current'', Key ''temp_c''] = Inr t" by (rule hasE) simp
  from h(2) obtain f where f: "jget d [''current'', ''feelslike_c''] = Some f"
    "path d [Key ''current'', Key ''feelslike_c''] = Inr f" by (rule hasE) simp
  from h(3) obtain hu where hu: "jget d [''current'', ''humidity''] = Some hu"
    "path d [Key ''current'', Key ''humidity''] = Inr hu" by (rule hasE) simp
  from h(4) obtain c where c: "jget d [''current'', ''condition'', ''text''] = Some c"
    "path d [Key ''current'', Key ''condition'', Key ''text''] = Inr c" by (rule hasE) simp
  from h(5) obtain w where w: "jget d [''current'', ''wind_kph''] = Some w"
    "path d [Key ''current'', Key ''wind_kph''] = Inr w" by (rule hasE) simp
  from h(6) obtain i where i: "jget d [''current'', ''condition'', ''icon''] = Some i"
    "path d [Key ''current'', Key ''condition'', Key ''icon''] = Inr i" by (rule hasE) simp
  have "current_data fmt d =
       and_then (path d [Key ''forecast'', Key ''forecastday'', Idx 0, Key ''astro'', Key ''sunrise''])
         (\<lambda>sr. and_then (path d [Key ''forecast'', Key ''forecastday'', Idx 0, Key ''astro'', Key ''sunset''])
           (\<lambda>ss. Inr [(''temperature'', t), (''feels_like'', f), (''humidity'', hu),
                       (''condition'', c), (''wind_speed'', w), (''icon'', http_prefix fmt i),
                       (''sunrise'', sr), (''sunset'', ss)]))"
    unfolding current_data_def dict_of.simps t(2) f(2) hu(2) c(2) w(2) i(2) and_then_Inr
    by (simp add: and_then_def split: sum.splits)
  with t(1) f(1) hu(1) c(1) w(1) i(1) that show thesis by blast
qed

lemma forecastday_path:
  "jget d [''forecast'', ''forecastday''] = Some fd \<Longrightarrow>
   path d (Key ''forecast'' # Key ''forecastday'' # ks) = path fd ks"
  using path_append [of d "[Key ''forecast'', Key ''forecastday'']" ks]
        jget_path [of d "[''forecast'', ''forecastday'']" fd]
  by (simp add: and_then_Inr)

text \<open>
  C10. A 2-day payload with a well-formed \<^verbatim>\<open>current\<close> object and an empty
  \<^verbatim>\<open>forecastday\<close> array: reading the first day for the sunrise raises \<^verbatim>\<open>IndexError\<close>,
  the call shows the error, returns \<^verbatim>\<open>None\<close> and two empty frames, and makes no second
  request.
\<close>

theorem no_forecast_day:
  assumes "nt 0 (forecast_url fmt api_key city ''2'') = Inr r" and "body r = Some d"
    and "shape_current d" and "jget d [''forecast'', ''forecastday''] = Some (JArr [])"
  shows "load_weather_data fmt nt city api_key =
           ((None, DataFrame [], DataFrame []),
            [HttpGet (forecast_url fmt api_key city ''2''), StError (LoadFailed IndexError)])
         \<and> requests_made (snd (load_weather_data fmt nt city api_key))
             = [forecast_url fmt api_key city ''2'']"
proof -
  from assms(3) obtain t f h c w i where
    "current_data fmt d =
       and_then (path d [Key ''forecast'', Key ''forecastday'', Idx 0, Key ''astro'', Key ''sunrise''])
         (\<lambda>sr. and_then (path d [Key ''forecast'', Key ''forecastday'', Idx 0, Key ''astro'', Key ''sunset''])
           (\<lambda>ss. Inr [(''temperature'', t), (''feels_like'', f), (''humidity'', h),
                       (''condition'', c), (''wind_speed'', w), (''icon'', http_prefix fmt i),
                       (''sunrise'', sr), (''sunset'', ss)]))"
    by (rule current_data_first_six)
  moreover have "path d [Key ''forecast'', Key ''forecastday'', Idx 0, Key ''astro'', Key ''sunrise'']
      = Inl IndexError"
    by (subst forecastday_path [OF assms(4)]) (simp add: and_then_Inl)
  ultimately have "current_data fmt d = Inl IndexError"
    by (simp only: and_then_Inl)
  then have "first_part fmt nt city api_key = Inl IndexError"
    using assms(1,2) by (simp add: first_part_def get_json_def and_then_Inr and_then_Inl)
  then show ?thesis by (simp add: first_part_Inl)
qed

theorem no_forecast_day_witness:
  "load_weather_data plain_fmt net_no_days ''London'' (JStr ''k'') =
     ((None, DataFrame [], DataFrame []),
      [HttpGet (forecast_url plain_fmt (JStr ''k'') ''London'' ''2''),
       StError (LoadFailed IndexError)])"
proof -
  have "shape_current (sample_payload [])"
    by (simp add: shape_current_def has_def sample_payload_def sample_current_def
        sample_condition_def)
  moreover have "jget (sample_payload []) [''forecast'', ''forecastday''] = Some (JArr [])"
    by (simp add: sample_payload_def)
  ultimately show ?thesis
    using no_forecast_day [of net_no_days plain_fmt "JStr ''k''" "''London''"
        "\<lparr>status_code = 200, body = Some (sample_payload [])\<rparr>" "sample_payload []"]
    by (simp add: net_no_days_def ok_def)
qed

text \<open>
  C8. For an integer humidity \<open>h\<close> between 0 and 100 in the current conditions, the
  humidity chart receives \<open>h\<close> and \<open>100 - h\<close>, and the two add up to 100.
\<close>

theorem humidity_pie_sums_to_100:
  assumes "0 \<le> h" and "h \<le> 100" and "map_of cur ''humidity'' = Some (JInt h)"
  shows "\<exists>a b. humidity_pie fsub cur = Inr [JInt a, JInt b] \<and> a = h \<and> b = 100 - h
           \<and> a + b = 100"
  using assms(3) by (simp add: humidity_pie_def and_then_def)

theorem humidity_pie_sums_to_100_witness:
  "\<exists>a b. humidity_pie (\<lambda>x. 100 - x) [(''humidity'', JInt 80)] = Inr [JInt a, JInt b]
       \<and> a = 80 \<and> b = 20 \<and> a + b = 100"
  using humidity_pie_sums_to_100 [of 80 "[(''humidity'', JInt 80)]" "\<lambda>x. 100 - x"]
  by simp

subsection \<open>Well-formed payloads\<close>

lemma hour_row_shape:
  assumes "shape_hour h"
  shows "\<exists>row. hour_row fmt h = Inr row \<and> hourly_entry fmt h row"
proof -
  from assms have s: "has h [''time'']" "has h [''temp_c'']" "has h [''feelslike_c'']"
    "has h [''humidity'']" "has h [''condition'', ''text'']" "has h [''wind_kph'']"
    "has h [''condition'', ''icon'']"
    by (simp_all add: shape_hour_def)
  from s(1) obtain a where a: "jget h [''time''] = Some a" "path h [Key ''time''] = Inr a"
    by (rule hasE) simp
  from s(2) obtain b where b: "jget h [''temp_c''] = Some b" "path h [Key ''temp_c''] = Inr b"
    by (rule hasE) simp
  from s(3) obtain c where c: "jget h [''feelslike_c''] = Some c"
    "path h [Key ''feelslike_c''] = Inr c"
    by (rule hasE) simp
  from s(4) obtain d where d: "jget h [''humidity''] = Some d" "path h [Key ''humidity''] = Inr d"
    by (rule hasE) simp
  from s(5) obtain e where e: "jget h [''condition'', ''text''] = Some e"
    "path h [Key ''condition'', Key ''text''] = Inr e"
    by (rule hasE) simp
  from s(6) obtain f where f: "jget h [''wind_kph''] = Some f" "path h [Key ''wind_kph''] = Inr f"
    by (rule hasE) simp
  from s(7) obtain g where g: "jget h [''condition'', ''icon''] = Some g"
    "path h [Key ''condition'', Key ''icon''] = Inr g"
    by (rule hasE) simp
  have r: "hour_row fmt h = Inr [(''time'', a), (''temperature'', b), (''feels_like'', c),
      (''humidity'', d), (''condition'', e), (''wind_speed'', f), (''icon'', http_prefix fmt g)]"
    unfolding hour_row_def dict_of.simps a(2) b(2) c(2) d(2) e(2) f(2) g(2) and_then_Inr ..
  have "hourly_entry fmt h [(''time'', a), (''temperature'', b), (''feels_like'', c),
      (''humidity'', d), (''condition'', e), (''wind_speed'', f), (''icon'', http_prefix fmt g)]"
    unfolding hourly_entry_def same_field_def icon_field_def a(1) b(1) c(1) d(1) e(1) f(1) g(1)
    by simp
  with r show ?thesis by blast
qed

lemma day_row_shape:
  assumes "shape_day day"
  shows "\<exists>row. day_row fmt day = Inr row \<and> daily_entry fmt day row"
proof -
  from assms have s: "has day [''date'']" "has day [''day'', ''avgtemp_c'']"
    "has day [''day'', ''condition'', ''text'']" "has day [''day'', ''maxwind_kph'']"
    "has day [''astro'', ''sunrise'']" "has day [''astro'', ''sunset'']"
    "has day [''day'', ''condition'', ''icon'']"
    by (simp_all add: shape_day_def)
  from s(1) obtain a where a: "jget day [''date''] = Some a" "path day [Key ''date''] = Inr a"
    by (rule hasE) simp
  from s(2) obtain b where b: "jget day [''day'', ''avgtemp_c''] = Some b"
    "path day [Key ''day'', Key ''avgtemp_c''] = Inr b"
    by (rule hasE) simp
  from s(3) obtain c where c: "jget day [''day'', ''condition'', ''text''] = Some c"
    "path day [Key ''day'', Key ''condition'', Key ''text''] = Inr c"
    by (rule hasE) simp
  from s(4) obtain d where d: "jget day [''day'', ''maxwind_kph''] = Some d"
    "path day [Key ''day'', Key ''maxwind_kph''] = Inr d"
    by (rule hasE) simp
  from s(5) obtain e where e: "jget day [''astro'', ''sunrise''] = Some e"
    "path day [Key ''astro'', Key ''sunrise''] = Inr e"
    by (rule hasE) simp
  from s(6) obtain f where f: "jget day [''astro'', ''sunset''] = Some f"
    "path day [Key ''astro'', Key ''sunset''] = Inr f"
    by (rule hasE) simp
  from s(7) obtain g where g: "jget day [''day'', ''condition'', ''icon''] = Some g"
    "path day [Key ''day'', Key ''condition'', Key ''icon''] = Inr g"
    by (rule hasE) simp
  have r: "day_row fmt day = Inr [(''date'', a), (''avg_temperature'', b), (''condition'', c),
      (''wind_speed'', d), (''sunrise'', e), (''sunset'', f), (''icon'', http_prefix fmt g)]"
    unfolding day_row_def dict_of.simps a(2) b(2) c(2) d(2) e(2) f(2) g(2) and_then_Inr ..
  have "daily_entry fmt day [(''date'', a), (''avg_temperature'', b), (''condition'', c),
      (''wind_speed'', d), (''sunrise'', e), (''sunset'', f), (''icon'', http_prefix fmt g)]"
    unfolding daily_entry_def same_field_def icon_field_def a(1) b(1) c(1) d(1) e(1) f(1) g(1)
    by simp
  with r show ?thesis by blast
qed

lemma traverse_all:
  "list_all (\<lambda>x. \<exists>y. f x = Inr y \<and> P x y) xs \<Longrightarrow>
   \<exists>ys. traverse f xs = Inr ys \<and> list_all2 P xs ys"
proof (induction xs)
  case Nil
  then show ?case by simp
next
  case (Cons x xs)
  then obtain y ys where "f x = Inr y" "P x y" "traverse f xs = Inr ys" "list_all2 P xs ys"
    by auto
  then show ?case by (simp add: and_then_Inr)
qed

lemma is_array_elems: "is_array v \<Longrightarrow> v = Some (JArr (elems v))"
  by (cases v rule: is_array.cases) simp_all

lemma list_all2_concat:
  "list_all2 (\<lambda>x ys. list_all2 P (f x) ys) xs yss \<Longrightarrow>
   list_all2 P (concat (map f xs)) (concat yss)"
  by (induction xs yss rule: list_all2_induct) (simp_all add: list_all2_appendI)

lemma day_hours_shape:
  assumes "shape_hours day"
  shows "\<exists>rows. and_then (path day [Key ''hour'']) (\<lambda>hs.
           and_then (iterate hs) (\<lambda>hours. traverse (hour_row fmt) hours)) = Inr rows
         \<and> list_all2 (\<lambda>h row. hour_row fmt h = Inr row) (hours_of day) rows"
proof -
  from assms have "jget day [''hour''] = Some (JArr (hours_of day))"
    using is_array_elems [of "jget day [''hour'']"] by (simp add: shape_hours_def hours_of_def)
  then have p: "path day [Key ''hour''] = Inr (JArr (hours_of day))"
    using jget_path [of day "[''hour'']"] by simp
  from assms have "list_all (\<lambda>h. \<exists>row. hour_row fmt h = Inr row \<and> hourly_entry fmt h row)
      (hours_of day)"
    by (auto simp: shape_hours_def list_all_iff hour_row_shape)
  then obtain rows where t: "traverse (hour_row fmt) (hours_of day) = Inr rows"
    using traverse_all by blast
  then have "list_all2 (\<lambda>h row. hour_row fmt h = Inr row) (hours_of day) rows"
    by (simp add: traverse_Inr)
  moreover have "and_then (path day [Key ''hour'']) (\<lambda>hs.
           and_then (iterate hs) (\<lambda>hours. traverse (hour_row fmt) hours)) = Inr rows"
    unfolding p and_then_Inr iterate.simps t ..
  ultimately show ?thesis by blast
qed

lemma forecast_48hr_shape:
  assumes "is_array (jget d [''forecast'', ''forecastday''])"
    and "list_all shape_hours (days_of d)"
  shows "\<exists>rows. forecast_48hr fmt d = Inr (DataFrame rows)
         \<and> list_all2 (\<lambda>h row. hour_row fmt h = Inr row)
               (concat (map hours_of (days_of d))) rows"
proof -
  from assms(1) have "jget d [''forecast'', ''forecastday''] = Some (JArr (days_of d))"
    using is_array_elems [of "jget d [''forecast'', ''forecastday'']"] by (simp add: days_of_def)
  then have p: "path d [Key ''forecast'', Key ''forecastday''] = Inr (JArr (days_of d))"
    using jget_path [of d "[''forecast'', ''forecastday'']"] by simp
  let ?g = "\<lambda>day. and_then (path day [Key ''hour'']) (\<lambda>hs.
           and_then (iterate hs) (\<lambda>hours. traverse (hour_row fmt) hours))"
  let ?R = "\<lambda>h row. hour_row fmt h = Inr row"
  from assms(2) have "list_all (\<lambda>day. \<exists>rows. ?g day = Inr rows
        \<and> list_all2 ?R (hours_of day) rows) (days_of d)"
    by (simp add: list_all_iff day_hours_shape del: path.simps)
  then obtain rowss where t: "traverse ?g (days_of d) = Inr rowss"
    and "list_all2 (\<lambda>day rows. list_all2 ?R (hours_of day) rows) (days_of d) rowss"
    using traverse_all [of ?g "\<lambda>day rows. list_all2 ?R (hours_of day) rows"]
    by blast
  then have "list_all2 ?R (concat (map hours_of (days_of d))) (concat rowss)"
    by (rule_tac list_all2_concat)
  moreover have "forecast_48hr fmt d = Inr (DataFrame (concat rowss))"
    unfolding forecast_48hr_def p and_then_Inr iterate.simps t ..
  ultimately show ?thesis by blast
qed

lemma forecast_10day_shape:
  assumes "shape_10day d"
  shows "\<exists>rows. forecast_10day fmt d = Inr (DataFrame rows)
         \<and> list_all2 (\<lambda>day row. day_row fmt day = Inr row) (days_of d) rows"
proof -
  from assms have "jget d [''forecast'', ''forecastday''] = Some (JArr (days_of d))"
    using is_array_elems [of "jget d [''forecast'', ''forecastday'']"]
    by (simp add: days_of_def shape_10day_def)
  then have p: "path d [Key ''forecast'', Key ''forecastday''] = Inr (JArr (days_of d))"
    using jget_path [of d "[''forecast'', ''forecastday'']"] by simp
  from assms have "list_all (\<lambda>day. \<exists>row. day_row fmt day = Inr row \<and> daily_entry fmt day row)
      (days_of d)"
    by (auto simp: shape_10day_def list_all_iff day_row_shape)
  then obtain rows where t: "traverse (day_row fmt) (days_of d) = Inr rows"
    using traverse_all by blast
  then have "list_all2 (\<lambda>day row. day_row fmt day = Inr row) (days_of d) rows"
    by (simp add: traverse_Inr)
  moreover have "forecast_10day fmt d = Inr (DataFrame rows)"
    unfolding forecast_10day_def p and_then_Inr iterate.simps t ..
  ultimately show ?thesis by blast
qed

lemma current_data_shape:
  assumes "shape_48hr d"
  shows "\<exists>cur. current_data fmt d = Inr cur \<and> current_entry fmt d cur"
proof -
  from assms have sc: "shape_current d" by (simp add: shape_48hr_def)
  from assms obtain day0 rest where days: "days_of d = day0 # rest"
    and h: "has day0 [''astro'', ''sunrise'']" "has day0 [''astro'', ''sunset'']"
    by (auto simp: shape_48hr_def split: list.splits)
  from assms have "jget d [''forecast'', ''forecastday''] = Some (JArr (days_of d))"
    using is_array_elems [of "jget d [''forecast'', ''forecastday'']"]
    by (simp add: days_of_def shape_48hr_def)
  with days have fd: "jget d [''forecast'', ''forecastday''] = Some (JArr (day0 # rest))"
    by simp
  from h(1) obtain sr where sr: "jget day0 [''astro'', ''sunrise''] = Some sr"
    "path day0 [Key ''astro'', Key ''sunrise''] = Inr sr" by (rule hasE) simp
  from h(2) obtain ss where ss: "jget day0 [''astro'', ''sunset''] = Some ss"
    "path day0 [Key ''astro'', Key ''sunset''] = Inr ss" by (rule hasE) simp
  have p1: "path d [Key ''forecast'', Key ''forecastday'', Idx 0, Key ''astro'', Key ''sunrise'']
      = Inr sr"
    using sr(2) by (subst forecastday_path [OF fd]) (simp add: and_then_Inr)
  have p2: "path d [Key ''forecast'', Key ''forecastday'', Idx 0, Key ''astro'', Key ''sunset'']
      = Inr ss"
    using ss(2) by (subst forecastday_path [OF fd]) (simp add: and_then_Inr)
  from sc obtain t f hu c w i where j:
    "jget d [''current'', ''temp_c''] = Some t"
    "jget d [''current'', ''feelslike_c''] = Some f"
    "jget d [''current'', ''humidity''] = Some hu"
    "jget d [''current'', ''condition'', ''text''] = Some c"
    "jget d [''current'', ''wind_kph''] = Some w"
    "jget d [''current'', ''condition'', ''icon''] = Some i"
    and "current_data fmt d =
       and_then (path d [Key ''forecast'', Key ''forecastday'', Idx 0, Key ''astro'', Key ''sunrise''])
         (\<lambda>sr. and_then (path d [Key ''forecast'', Key ''forecastday'', Idx 0, Key ''astro'', Key ''sunset''])
           (\<lambda>ss. Inr [(''temperature'', t), (''feels_like'', f), (''humidity'', hu),
                       (''condition'', c), (''wind_speed'', w), (''icon'', http_prefix fmt i),
                       (''sunrise'', sr), (''sunset'', ss)]))"
    by (rule current_data_first_six)
  then have r: "current_data fmt d = Inr [(''temperature'', t), (''feels_like'', f),
      (''humidity'', hu), (''condition'', c), (''wind_speed'', w), (''icon'', http_prefix fmt i),
      (''sunrise'', sr), (''sunset'', ss)]"
    by (simp only: p1 p2 and_then_Inr)
  have fst_day: "first_day d = day0" by (simp add: first_day_def days)
  have "current_entry fmt d [(''temperature'', t), (''feels_like'', f),
      (''humidity'', hu), (''condition'', c), (''wind_speed'', w), (''icon'', http_prefix fmt i),
      (''sunrise'', sr), (''sunset'', ss)]"
    unfolding current_entry_def same_field_def icon_field_def j fst_day sr(1) ss(1)
    by simp
  with r show ?thesis by blast
qed

lemma first_part_shape:
  assumes "nt 0 (forecast_url fmt api_key city ''2'') = Inr r1" and "body r1 = Some d1"
    and "shape_48hr d1"
  shows "\<exists>cur rows. first_part fmt nt city api_key = Inr (cur, DataFrame rows)
          \<and> current_entry fmt d1 cur
          \<and> list_all2 (\<lambda>h row. hour_row fmt h = Inr row)
                (concat (map hours_of (days_of d1))) rows"
proof -
  obtain cur where c: "current_data fmt d1 = Inr cur" "current_entry fmt d1 cur"
    using current_data_shape [OF assms(3)] by blast
  from assms(3) obtain rows where r: "forecast_48hr fmt d1 = Inr (DataFrame rows)"
    "list_all2 (\<lambda>h row. hour_row fmt h = Inr row) (concat (map hours_of (days_of d1))) rows"
    using forecast_48hr_shape [of d1 fmt] by (auto simp: shape_48hr_def)
  from assms(1,2) c(1) r(1) have "first_part fmt nt city api_key = Inr (cur, DataFrame rows)"
    by (simp add: first_part_def get_json_def and_then_Inr)
  with c(2) r(2) show ?thesis by blast
qed

lemma second_part_shape:
  assumes "nt 1 (forecast_url fmt api_key city ''10'') = Inr r2" and "body r2 = Some d2"
    and "shape_10day d2"
  shows "\<exists>rows. second_part fmt nt city api_key = Inr (DataFrame rows)
          \<and> list_all2 (\<lambda>day row. day_row fmt day = Inr row) (days_of d2) rows"
proof -
  obtain rows where "forecast_10day fmt d2 = Inr (DataFrame rows)"
    "list_all2 (\<lambda>day row. day_row fmt day = Inr row) (days_of d2) rows"
    using forecast_10day_shape [OF assms(3)] by blast
  moreover from this assms(1,2) have "second_part fmt nt city api_key = Inr (DataFrame rows)"
    by (simp add: second_part_def get_json_def and_then_Inr)
  ultimately show ?thesis by blast
qed

lemma load_weather_data_both:
  "first_part fmt nt city api_key = Inr (cur, hourly) \<Longrightarrow>
   second_part fmt nt city api_key = Inr daily \<Longrightarrow>
   load_weather_data fmt nt city api_key =
     ((Some cur, hourly, daily),
      [HttpGet (forecast_url fmt api_key city ''2''), HttpGet (forecast_url fmt api_key city ''10'')])"
  by (simp add: load_weather_data_def)



subsection \<open>A successful call\<close>

text \<open>
  C1. When both requests are answered with payloads of the documented shape,
  \<open>load_weather_data\<close> makes the two requests and returns current conditions whose
  temperature, feels-like temperature, humidity, condition, wind speed, sunrise and sunset
  are the values of the 2-day payload, unchanged, and an hourly frame with as many rows as
  the \<^verbatim>\<open>hour\<close> arrays of the forecast days of that payload have elements together.
\<close>

theorem fields_verbatim:
  assumes "nt 0 (forecast_url fmt api_key city ''2'') = Inr r1" and "body r1 = Some d1"
    and "shape_48hr d1"
    and "nt 1 (forecast_url fmt api_key city ''10'') = Inr r2" and "body r2 = Some d2"
    and "shape_10day d2"
  shows "\<exists>cur hourly daily.
           load_weather_data fmt nt city api_key =
             ((Some cur, hourly, daily),
              [HttpGet (forecast_url fmt api_key city ''2''),
               HttpGet (forecast_url fmt api_key city ''10'')])
           \<and> same_field cur ''temperature'' d1 [''current'', ''temp_c'']
           \<and> same_field cur ''feels_like'' d1 [''current'', ''feelslike_c'']
           \<and> same_field cur ''humidity'' d1 [''current'', ''humidity'']
           \<and> same_field cur ''condition'' d1 [''current'', ''condition'', ''text'']
           \<and> same_field cur ''wind_speed'' d1 [''current'', ''wind_kph'']
           \<and> same_field cur ''sunrise'' (first_day d1) [''astro'', ''sunrise'']
           \<and> same_field cur ''sunset'' (first_day d1) [''astro'', ''sunset'']
           \<and> n_rows hourly = sum_list (map (\<lambda>day. length (hours_of day)) (days_of d1))"
proof -
  obtain cur rows where f: "first_part fmt nt city api_key = Inr (cur, DataFrame rows)"
    "current_entry fmt d1 cur"
    "list_all2 (\<lambda>h row. hour_row fmt h = Inr row) (concat (map hours_of (days_of d1))) rows"
    using first_part_shape [of nt fmt api_key city r1 d1, OF assms(1-3)] by blast
  obtain daily where s: "second_part fmt nt city api_key = Inr daily"
    using second_part_shape [of nt fmt api_key city r2 d2, OF assms(4-6)] by blast
  from f(3) have "length rows = length (concat (map hours_of (days_of d1)))"
    by (simp add: list_all2_lengthD)
  then have "n_rows (DataFrame rows)
      = sum_list (map (\<lambda>day. length (hours_of day)) (days_of d1))"
    by (simp add: length_concat comp_def)
  with load_weather_data_both [OF f(1) s] f(2) show ?thesis
    by (simp add: current_entry_def)
qed


text \<open>
  C7. When both requests are answered with payloads of the documented shape, the hourly
  frame returned is built from the dicts of every hour of every forecast day of the 2-day
  payload, in the order of the days and, within a day, of its hours: dict \<open>i\<close> of the list
  is the one line 44 builds from hour \<open>i\<close> of the concatenated \<^verbatim>\<open>hour\<close> arrays.
\<close>

theorem hourly_flattening:
  assumes "nt 0 (forecast_url fmt api_key city ''2'') = Inr r1" and "body r1 = Some d1"
    and "shape_48hr d1"
    and "nt 1 (forecast_url fmt api_key city ''10'') = Inr r2" and "body r2 = Some d2"
    and "shape_10day d2"
  shows "\<exists>cur records daily.
           fst (load_weather_data fmt nt city api_key) = (Some cur, DataFrame records, daily)
           \<and> list_all2 (\<lambda>h row. hour_row fmt h = Inr row)
                 (concat (map hours_of (days_of d1))) records"
proof -
  obtain cur rows where f: "first_part fmt nt city api_key = Inr (cur, DataFrame rows)"
    "list_all2 (\<lambda>h row. hour_row fmt h = Inr row) (concat (map hours_of (days_of d1))) rows"
    using first_part_shape [of nt fmt api_key city r1 d1, OF assms(1-3)] by blast
  obtain daily where s: "second_part fmt nt city api_key = Inr daily"
    using second_part_shape [of nt fmt api_key city r2 d2, OF assms(4-6)] by blast
  from load_weather_data_both [OF f(1) s] f(2) show ?thesis by auto
qed

subsection \<open>The sample payloads\<close>

lemmas sample_defs = sample_48hr_def sample_10day_def sample_payload_def sample_day_def
  sample_hour_def sample_current_def sample_condition_def

lemma sample_48hr_shape: "shape_48hr sample_48hr"
  by (simp add: shape_48hr_def shape_current_def shape_hours_def shape_hour_def has_def
      days_of_def hours_of_def sample_defs)

lemma sample_10day_shape: "shape_10day sample_10day"
  by (simp add: shape_10day_def shape_day_def has_def days_of_def sample_defs)

lemma sample_hours:
  "concat (map hours_of (days_of sample_48hr)) = [sample_hour ''a'', sample_hour ''b'', sample_hour ''c'']"
  by (simp add: days_of_def hours_of_def sample_48hr_def sample_payload_def sample_day_def)




lemma sample_hour_row:
  "hour_row plain_fmt (sample_hour t) =
     Inr [(''time'', JStr t), (''temperature'', JFloat 11), (''feels_like'', JFloat 9),
          (''humidity'', JInt 80), (''condition'', JStr ''Sunny''), (''wind_speed'', JInt 12),
          (''icon'', JStr ''http://cdn.example/icon.png'')]"
  by (simp add: hour_row_def sample_hour_def sample_condition_def http_prefix_def and_then_Inr)

lemma net_ok_answers:
  "net_ok 0 (forecast_url plain_fmt (JStr ''k'') ''London'' ''2'')
     = Inr \<lparr>status_code = 200, body = Some sample_48hr\<rparr>"
  "net_ok 1 (forecast_url plain_fmt (JStr ''k'') ''London'' ''10'')
     = Inr \<lparr>status_code = 200, body = Some sample_10day\<rparr>"
  by (simp_all add: net_ok_def ok_def)

lemma body_simps:
  "body \<lparr>status_code = c, body = Some d\<rparr> = Some d"
  by simp




theorem fields_verbatim_witness:
  "\<exists>cur hourly daily.
     fst (load_weather_data plain_fmt net_ok ''London'' (JStr ''k'')) = (Some cur, hourly, daily)
     \<and> map_of cur ''temperature'' = Some (JFloat 11)
     \<and> map_of cur ''humidity'' = Some (JInt 80)
     \<and> map_of cur ''sunrise'' = Some (JStr ''07:d1'')
     \<and> n_rows hourly = 3"
proof -
  have n: "sum_list (map (\<lambda>day. length (hours_of day)) (days_of sample_48hr)) = 3"
    by (simp add: days_of_def hours_of_def sample_48hr_def sample_payload_def sample_day_def)
  have j: "jget sample_48hr [''current'', ''temp_c''] = Some (JFloat 11)"
    "jget sample_48hr [''current'', ''humidity''] = Some (JInt 80)"
    "jget (first_day sample_48hr) [''astro'', ''sunrise''] = Some (JStr ''07:d1'')"
    by (simp_all add: first_day_def days_of_def sample_defs)
  from fields_verbatim [of net_ok plain_fmt "JStr ''k''" "''London''"
      "\<lparr>status_code = 200, body = Some sample_48hr\<rparr>" sample_48hr
      "\<lparr>status_code = 200, body = Some sample_10day\<rparr>" sample_10day,
      OF net_ok_answers(1) body_simps sample_48hr_shape
      net_ok_answers(2) body_simps sample_10day_shape]
  show ?thesis
    unfolding same_field_def j n by auto
qed


theorem hourly_flattening_witness:
  "\<exists>cur records daily.
     fst (load_weather_data plain_fmt net_ok ''London'' (JStr ''k''))
       = (Some cur, DataFrame records, daily)
     \<and> map (\<lambda>row. map_of row ''time'') records = [Some (JStr ''a''), Some (JStr ''b''), Some (JStr ''c'')]"
proof -
  from hourly_flattening [of net_ok plain_fmt "JStr ''k''" "''London''"
      "\<lparr>status_code = 200, body = Some sample_48hr\<rparr>" sample_48hr
      "\<lparr>status_code = 200, body = Some sample_10day\<rparr>" sample_10day,
      OF net_ok_answers(1) body_simps sample_48hr_shape
      net_ok_answers(2) body_simps sample_10day_shape]
  obtain cur records daily where
    r: "fst (load_weather_data plain_fmt net_ok ''London'' (JStr ''k''))
          = (Some cur, DataFrame records, daily)"
    and a: "list_all2 (\<lambda>h row. hour_row plain_fmt h = Inr row)
              (concat (map hours_of (days_of sample_48hr))) records"
    by blast
  from a have "map (\<lambda>row. map_of row ''time'') records
      = [Some (JStr ''a''), Some (JStr ''b''), Some (JStr ''c'')]"
    unfolding sample_hours by (auto simp: list_all2_Cons1 sample_hour_row)
  with r show ?thesis by (intro exI [of _ cur] exI [of _ records] exI [of _ daily] conjI)
qed

subsection \<open>A failing first request\<close>

lemma subscript_member: "subscript v (Key k) = Inr w \<Longrightarrow> member v k = Some w"
  by (cases v) (auto split: option.splits)

lemma path_jget: "path v (map Key ks) = Inr w \<Longrightarrow> jget v ks = Some w"
proof (induction ks arbitrary: v)
  case Nil
  then show ?case by simp
next
  case (Cons k ks)
  then obtain u where "subscript v (Key k) = Inr u" "path u (map Key ks) = Inr w"
    by (auto simp: and_then_eq_Inr)
  then show ?case
    using Cons.IH [of u] by (simp add: subscript_member)
qed

lemma path_has: "path v (map Key ks) = Inr w \<Longrightarrow> has v ks"
  by (simp add: has_def path_jget)

lemma hour_row_Inr:
  assumes "hour_row fmt h = Inr row"
  shows "shape_hour h"
proof -
  from assms obtain a b c d e f g where
    "path h [Key ''time''] = Inr a" "path h [Key ''temp_c''] = Inr b"
    "path h [Key ''feelslike_c''] = Inr c" "path h [Key ''humidity''] = Inr d"
    "path h [Key ''condition'', Key ''text''] = Inr e" "path h [Key ''wind_kph''] = Inr f"
    "path h [Key ''condition'', Key ''icon''] = Inr g"
    unfolding hour_row_def dict_of_Cons and_then_eq_Inr by blast
  then show ?thesis
    unfolding shape_hour_def
    using path_has [of h "[''time'']" a, unfolded list.map]
      path_has [of h "[''temp_c'']" b, unfolded list.map]
      path_has [of h "[''feelslike_c'']" c, unfolded list.map]
      path_has [of h "[''humidity'']" d, unfolded list.map]
      path_has [of h "[''condition'', ''text'']" e, unfolded list.map]
      path_has [of h "[''wind_kph'']" f, unfolded list.map]
      path_has [of h "[''condition'', ''icon'']" g, unfolded list.map]
    by blast
qed

lemma first_day_path:
  assumes "path d [Key ''forecast'', Key ''forecastday'', Idx 0, Key ''astro'', Key k] = Inr w"
  shows "has (first_day d) [''astro'', k]"
proof -
  from assms obtain a b c where s: "subscript d (Key ''forecast'') = Inr a"
    "subscript a (Key ''forecastday'') = Inr b" "subscript b (Idx 0) = Inr c"
    and p: "path c [Key ''astro'', Key k] = Inr w"
    unfolding path.simps and_then_eq_Inr by blast
  from s(1,2) have j: "jget d [''forecast'', ''forecastday''] = Some b"
    by (simp add: subscript_member)
  show ?thesis
  proof (cases b)
    case (JArr xs)
    with s(3) obtain x rest where "xs = x # rest" "c = x"
      by (cases xs) (auto split: if_splits)
    with j JArr have "first_day d = c"
      by (simp add: first_day_def days_of_def)
    with path_has [of c "[''astro'', k]" w] p show ?thesis by simp
  next
    case (JStr str)
    with s(3) have "c = JStr [str ! 0]" by (auto split: if_splits)
    with p show ?thesis by (simp add: and_then_Inl)
  qed (use s(3) in simp_all)
qed

lemma current_data_Inr:
  assumes "current_data fmt d = Inr cur"
  shows "shape_current d \<and> has (first_day d) [''astro'', ''sunrise'']
         \<and> has (first_day d) [''astro'', ''sunset'']"
proof -
  from assms obtain t f h c w i sr ss where
    "path d [Key ''current'', Key ''temp_c''] = Inr t"
    "path d [Key ''current'', Key ''feelslike_c''] = Inr f"
    "path d [Key ''current'', Key ''humidity''] = Inr h"
    "path d [Key ''current'', Key ''condition'', Key ''text''] = Inr c"
    "path d [Key ''current'', Key ''wind_kph''] = Inr w"
    "path d [Key ''current'', Key ''condition'', Key ''icon''] = Inr i"
    "path d [Key ''forecast'', Key ''forecastday'', Idx 0, Key ''astro'', Key ''sunrise''] = Inr sr"
    "path d [Key ''forecast'', Key ''forecastday'', Idx 0, Key ''astro'', Key ''sunset''] = Inr ss"
    unfolding current_data_def dict_of_Cons and_then_eq_Inr by blast
  then show ?thesis
    unfolding shape_current_def
    using path_has [of d "[''current'', ''temp_c'']" t, unfolded list.map]
      path_has [of d "[''current'', ''feelslike_c'']" f, unfolded list.map]
      path_has [of d "[''current'', ''humidity'']" h, unfolded list.map]
      path_has [of d "[''current'', ''condition'', ''text'']" c, unfolded list.map]
      path_has [of d "[''current'', ''wind_kph'']" w, unfolded list.map]
      path_has [of d "[''current'', ''condition'', ''icon'']" i, unfolded list.map]
      first_day_path [of d "''sunrise''" sr] first_day_path [of d "''sunset''" ss]
    by blast
qed

lemma traverse_Inr_all:
  "traverse f xs = Inr ys \<Longrightarrow> x \<in> set xs \<Longrightarrow> \<exists>y. f x = Inr y"
  by (auto simp: traverse_Inr list_all2_conv_all_nth in_set_conv_nth)

lemma day_hours_Inr:
  assumes "and_then (path day [Key ''hour'']) (\<lambda>hs.
           and_then (iterate hs) (\<lambda>hours. traverse (hour_row fmt) hours)) = Inr rows"
  shows "has day [''hour''] \<and> list_all shape_hour (hours_of day)"
proof -
  from assms obtain hs hours where p: "path day [Key ''hour''] = Inr hs"
    and i: "iterate hs = Inr hours" and t: "traverse (hour_row fmt) hours = Inr rows"
    unfolding and_then_eq_Inr by blast
  from p have h: "has day [''hour'']" and j: "jget day [''hour''] = Some hs"
    using path_has [of day "[''hour'']" hs] path_jget [of day "[''hour'']" hs] by simp_all
  have "list_all shape_hour (hours_of day)"
  proof (cases hs)
    case (JArr hl)
    with i j have "hours_of day = hours" by (simp add: hours_of_def)
    with t show ?thesis
      using traverse_Inr_all [of "hour_row fmt" hours rows] hour_row_Inr
      by (auto simp: list_all_iff)
  qed (use j in \<open>simp_all add: hours_of_def\<close>)
  with h show ?thesis by simp
qed

lemma forecast_48hr_Inr:
  assumes "forecast_48hr fmt d = Inr fr"
  shows "list_all (\<lambda>day. has day [''hour''] \<and> list_all shape_hour (hours_of day)) (days_of d)"
proof -
  let ?g = "\<lambda>day. and_then (path day [Key ''hour'']) (\<lambda>hs.
           and_then (iterate hs) (\<lambda>hours. traverse (hour_row fmt) hours))"
  from assms obtain fd days rowss where
    p: "path d [Key ''forecast'', Key ''forecastday''] = Inr fd"
    and i: "iterate fd = Inr days" and t: "traverse ?g days = Inr rowss"
    unfolding forecast_48hr_def and_then_eq_Inr by blast
  from p have j: "jget d [''forecast'', ''forecastday''] = Some fd"
    using path_jget [of d "[''forecast'', ''forecastday'']" fd] by simp
  show ?thesis
  proof (cases fd)
    case (JArr xs)
    with i j have "days_of d = days" by (simp add: days_of_def)
    with t show ?thesis
      using traverse_Inr_all [of ?g days rowss] day_hours_Inr [of _ fmt]
      by (simp add: list_all_iff del: path.simps) blast
  qed (use j in \<open>simp_all add: days_of_def\<close>)
qed

lemma lacks_field_fails:
  assumes "nt 0 (forecast_url fmt api_key city ''2'') = Inr r" and "body r = Some d"
    and "lacks_field d"
  shows "\<exists>e. first_part fmt nt city api_key = Inl e"
proof (cases "first_part fmt nt city api_key")
  case (Inl e)
  then show ?thesis by blast
next
  case (Inr p)
  with assms(1,2) obtain cur fr where "current_data fmt d = Inr cur" "forecast_48hr fmt d = Inr fr"
    by (auto simp: first_part_def get_json_def and_then_eq_Inr)
  then have "shape_current d \<and> has (first_day d) [''astro'', ''sunrise'']
         \<and> has (first_day d) [''astro'', ''sunset'']"
    "list_all (\<lambda>day. has day [''hour''] \<and> list_all shape_hour (hours_of day)) (days_of d)"
    by (simp_all add: current_data_Inr forecast_48hr_Inr)
  with assms(3) show ?thesis
    by (auto simp: lacks_field_def list_all_iff list_ex_iff)
qed

text \<open>
  C3, as stated, fails for the status code: both answers have status 500 and well-formed
  bodies, and the call returns current conditions and makes the second request.
\<close>

theorem status_500_is_not_a_failure:
  "net_500 0 (forecast_url plain_fmt (JStr ''k'') ''London'' ''2'')
     = Inr \<lparr>status_code = 500, body = Some sample_48hr\<rparr>
   \<and> fst (fst (load_weather_data plain_fmt net_500 ''London'' (JStr ''k''))) \<noteq> None
   \<and> requests_made (snd (load_weather_data plain_fmt net_500 ''London'' (JStr ''k'')))
       = [forecast_url plain_fmt (JStr ''k'') ''London'' ''2'',
          forecast_url plain_fmt (JStr ''k'') ''London'' ''10'']"
proof -
  have a: "net_500 0 (forecast_url plain_fmt (JStr ''k'') ''London'' ''2'')
     = Inr \<lparr>status_code = 500, body = Some sample_48hr\<rparr>"
    "net_500 1 (forecast_url plain_fmt (JStr ''k'') ''London'' ''10'')
     = Inr \<lparr>status_code = 500, body = Some sample_10day\<rparr>"
    by (simp_all add: net_500_def)
  obtain cur hourly where f: "first_part plain_fmt net_500 ''London'' (JStr ''k'') = Inr (cur, hourly)"
    using first_part_shape [of net_500 plain_fmt "JStr ''k''" "''London''"
        "\<lparr>status_code = 500, body = Some sample_48hr\<rparr>" sample_48hr,
        OF a(1) body_simps sample_48hr_shape] by blast
  obtain daily where s: "second_part plain_fmt net_500 ''London'' (JStr ''k'') = Inr daily"
    using second_part_shape [of net_500 plain_fmt "JStr ''k''" "''London''"
        "\<lparr>status_code = 500, body = Some sample_10day\<rparr>" sample_10day,
        OF a(2) body_simps sample_10day_shape] by blast
  from load_weather_data_both [OF f s] a(1) show ?thesis by simp
qed

text \<open>
  C3, amended. When the first request raises, or its body is not JSON, or a member the
  first part reads is missing from it, or building the current conditions or the hourly
  frame raises for another reason, \<open>load_weather_data\<close> shows one error, returns
  \<^verbatim>\<open>None\<close> and two empty frames, and the only request made is the first one. The status
  code of the answer plays no part.
\<close>

theorem first_request_fails:
  assumes "(\<exists>e. nt 0 (forecast_url fmt api_key city ''2'') = Inl e)
     \<or> (\<exists>r. nt 0 (forecast_url fmt api_key city ''2'') = Inr r
            \<and> (body r = None
               \<or> (\<exists>d. body r = Some d
                     \<and> (lacks_field d \<or> (\<exists>e. current_data fmt d = Inl e)
                        \<or> (\<exists>e. forecast_48hr fmt d = Inl e)))))"
  shows "\<exists>e. load_weather_data fmt nt city api_key =
           ((None, DataFrame [], DataFrame []),
            [HttpGet (forecast_url fmt api_key city ''2''), StError (LoadFailed e)])
         \<and> requests_made (snd (load_weather_data fmt nt city api_key))
             = [forecast_url fmt api_key city ''2'']"
proof -
  have "\<exists>e. first_part fmt nt city api_key = Inl e"
    using assms
  proof (elim disjE exE conjE)
    fix r d
    assume "nt 0 (forecast_url fmt api_key city ''2'') = Inr r" "body r = Some d" "lacks_field d"
    then show ?thesis by (rule lacks_field_fails)
  qed (auto simp: first_part_def get_json_def and_then_def split: sum.splits)
  then obtain e where "first_part fmt nt city api_key = Inl e" by blast
  then show ?thesis by (simp add: first_part_Inl)
qed

theorem first_request_fails_witness:
  "(\<exists>e. load_weather_data plain_fmt net_bad_json ''London'' (JStr ''k'') =
      ((None, DataFrame [], DataFrame []),
       [HttpGet (forecast_url plain_fmt (JStr ''k'') ''London'' ''2''), StError (LoadFailed e)]))
   \<and> (\<exists>e. load_weather_data plain_fmt net_error_body ''London'' (JStr ''k'') =
      ((None, DataFrame [], DataFrame []),
       [HttpGet (forecast_url plain_fmt (JStr ''k'') ''London'' ''2''), StError (LoadFailed e)]))
   \<and> requests_made (snd (load_weather_data plain_fmt net_error_body ''London'' (JStr ''k'')))
        = [forecast_url plain_fmt (JStr ''k'') ''London'' ''2'']"
proof -
  have l: "lacks_field (JObj [(''error'', JObj [(''code'', JInt 2006)])])"
    by (simp add: lacks_field_def shape_current_def has_def)
  have "net_bad_json 0 (forecast_url plain_fmt (JStr ''k'') ''London'' ''2'')
      = Inr \<lparr>status_code = 200, body = None\<rparr>"
    by (simp add: net_bad_json_def)
  then have a: "\<exists>e. load_weather_data plain_fmt net_bad_json ''London'' (JStr ''k'') =
      ((None, DataFrame [], DataFrame []),
       [HttpGet (forecast_url plain_fmt (JStr ''k'') ''London'' ''2''), StError (LoadFailed e)])"
    using first_request_fails [of net_bad_json plain_fmt "JStr ''k''" "''London''"]
    by auto
  have "net_error_body 0 (forecast_url plain_fmt (JStr ''k'') ''London'' ''2'')
      = Inr \<lparr>status_code = 401,
             body = Some (JObj [(''error'', JObj [(''code'', JInt 2006)])])\<rparr>"
    by (simp add: net_error_body_def)
  with l have "\<exists>e. load_weather_data plain_fmt net_error_body ''London'' (JStr ''k'') =
      ((None, DataFrame [], DataFrame []),
       [HttpGet (forecast_url plain_fmt (JStr ''k'') ''London'' ''2''), StError (LoadFailed e)])
    \<and> requests_made (snd (load_weather_data plain_fmt net_error_body ''London'' (JStr ''k'')))
        = [forecast_url plain_fmt (JStr ''k'') ''London'' ''2'']"
    using first_request_fails [of net_error_body plain_fmt "JStr ''k''" "''London''"]
    by auto
  with a show ?thesis by blast
qed

subsection \<open>The icon URL\<close>

text \<open>
  C5, as stated, fails: the prefix applied to its own result on
  \<^verbatim>\<open>//cdn.example/icon.png\<close> gives another string than applied once.
\<close>

theorem icon_prefix_not_idempotent:
  "http_prefix plain_fmt (http_prefix plain_fmt (JStr ''//cdn.example/icon.png''))
     \<noteq> http_prefix plain_fmt (JStr ''//cdn.example/icon.png'')"
  by (simp add: http_prefix_def)

text \<open>
  C5, amended. The icon URL is \<^verbatim>\<open>http:\<close> followed by the path the payload gives, so
  \<^verbatim>\<open>//cdn.example/icon.png\<close> becomes \<^verbatim>\<open>http://cdn.example/icon.png\<close>; applied twice
  it prefixes twice. The current conditions, every hourly row and every daily row hold
  under \<^verbatim>\<open>icon\<close> the prefixed value of their \<^verbatim>\<open>condition.icon\<close>.
\<close>

theorem icon_prefix_prepends:
  "http_prefix fmt (JStr p) = JStr (''http:'' @ p)
   \<and> http_prefix fmt (JStr ''//cdn.example/icon.png'') = JStr ''http://cdn.example/icon.png''
   \<and> http_prefix fmt (http_prefix fmt (JStr p)) = JStr (''http:http:'' @ p)
   \<and> (current_data fmt d = Inr cur \<longrightarrow>
        (\<exists>v. path d [Key ''current'', Key ''condition'', Key ''icon''] = Inr v
            \<and> map_of cur ''icon'' = Some (http_prefix fmt v)))
   \<and> (hour_row fmt h = Inr hrow \<longrightarrow>
        (\<exists>v. path h [Key ''condition'', Key ''icon''] = Inr v
            \<and> map_of hrow ''icon'' = Some (http_prefix fmt v)))
   \<and> (day_row fmt day = Inr drow \<longrightarrow>
        (\<exists>v. path day [Key ''day'', Key ''condition'', Key ''icon''] = Inr v
            \<and> map_of drow ''icon'' = Some (http_prefix fmt v)))"
proof -
  have a: "http_prefix fmt (JStr p) = JStr (''http:'' @ p)"
    "http_prefix fmt (JStr ''//cdn.example/icon.png'') = JStr ''http://cdn.example/icon.png''"
    "http_prefix fmt (http_prefix fmt (JStr p)) = JStr (''http:http:'' @ p)"
    by (simp_all add: http_prefix_def)
  have b: "\<exists>v. path d [Key ''current'', Key ''condition'', Key ''icon''] = Inr v
            \<and> map_of cur ''icon'' = Some (http_prefix fmt v)"
    if "current_data fmt d = Inr cur"
    using that unfolding current_data_def dict_of_Cons and_then_eq_Inr
    by auto
  have c: "\<exists>v. path h [Key ''condition'', Key ''icon''] = Inr v
            \<and> map_of hrow ''icon'' = Some (http_prefix fmt v)"
    if "hour_row fmt h = Inr hrow"
    using that unfolding hour_row_def dict_of_Cons and_then_eq_Inr
    by auto
  have d: "\<exists>v. path day [Key ''day'', Key ''condition'', Key ''icon''] = Inr v
            \<and> map_of drow ''icon'' = Some (http_prefix fmt v)"
    if "day_row fmt day = Inr drow"
    using that unfolding day_row_def dict_of_Cons and_then_eq_Inr
    by auto
  from a b c d show ?thesis by blast
qed


lemma sample_icon_paths:
  "path sample_48hr [Key ''current'', Key ''condition'', Key ''icon'']
     = Inr (JStr ''//cdn.example/icon.png'')"
  "path (sample_hour ''a'') [Key ''condition'', Key ''icon'']
     = Inr (JStr ''//cdn.example/icon.png'')"
  "path (sample_day ''d0'' []) [Key ''day'', Key ''condition'', Key ''icon'']
     = Inr (JStr ''//cdn.example/icon.png'')"
  by (simp_all add: sample_defs and_then_Inr)

theorem icon_prefix_prepends_witness:
  "(\<exists>cur. current_data plain_fmt sample_48hr = Inr cur
        \<and> map_of cur ''icon'' = Some (JStr ''http://cdn.example/icon.png''))
   \<and> (\<exists>hrow. hour_row plain_fmt (sample_hour ''a'') = Inr hrow
        \<and> map_of hrow ''icon'' = Some (JStr ''http://cdn.example/icon.png''))
   \<and> (\<exists>drow. day_row plain_fmt (sample_day ''d0'' []) = Inr drow
        \<and> map_of drow ''icon'' = Some (JStr ''http://cdn.example/icon.png''))"
proof -
  obtain cur where c: "current_data plain_fmt sample_48hr = Inr cur"
    using current_data_shape [OF sample_48hr_shape] by blast
  have "shape_hour (sample_hour ''a'')"
    by (simp add: shape_hour_def has_def sample_defs)
  then obtain hrow where h: "hour_row plain_fmt (sample_hour ''a'') = Inr hrow"
    using hour_row_shape by blast
  have "shape_day (sample_day ''d0'' [])"
    by (simp add: shape_day_def has_def sample_defs)
  then obtain drow where d: "day_row plain_fmt (sample_day ''d0'' []) = Inr drow"
    using day_row_shape by blast
  have p: "http_prefix plain_fmt (JStr ''//cdn.example/icon.png'')
      = JStr ''http://cdn.example/icon.png''"
    by (simp add: http_prefix_def)
  from icon_prefix_prepends [of plain_fmt "[]" sample_48hr cur "sample_hour ''a''" hrow
      "sample_day ''d0'' []" drow] c h d
  have "map_of cur ''icon'' = Some (JStr ''http://cdn.example/icon.png'')"
    "map_of hrow ''icon'' = Some (JStr ''http://cdn.example/icon.png'')"
    "map_of drow ''icon'' = Some (JStr ''http://cdn.example/icon.png'')"
    unfolding sample_icon_paths by (auto simp: p)
  with c h d show ?thesis by blast
qed

end
